theory Spec2Isabelle
  imports Complex_Main
begin

section \<open>Values, points and stores\<close>

text \<open>
  Records travel through the jobs as parsed JSON: Python \<open>None\<close>, \<open>bool\<close>, \<open>int\<close>,
  \<open>float\<close>, \<open>str\<close>, \<open>list\<close> and \<open>dict\<close>. A finite double is a rational number, and
  the jobs only carry floats around or test them against zero, so \<open>JFloat\<close> holds a
  rational. A \<open>char\<close> stands for one character of a Python \<open>str\<close>. A \<open>dict\<close> is an
  association list read with \<open>map_of\<close>.
\<close>

datatype json =
    JNull
  | JBool bool
  | JInt int
  | JFloat rat
  | JStr string
  | JList "json list"
  | JObj "(string \<times> json) list"

text \<open>\<open>qdrant_client.models.PointStruct(id, vector, payload)\<close>.\<close>

datatype point = PointStruct (point_id: json) (vector: json) (payload: json)

text \<open>\<open>qdrant_client.models.Distance\<close>.\<close>

datatype distance = COSINE | EUCLID | DOT | MANHATTAN

datatype py_error =
    ValueError string
  | KeyError string
  | AttributeError
  | TypeError
  | CollectionNotFound string

text \<open>
  The source client is read only. What \<open>get_collection\<close> reports (\<open>points_count\<close>,
  \<open>config.params.vectors.size\<close>, \<open>config.params.vectors.distance\<close>) and what
  \<open>scroll(offset, limit)\<close> answers (the points and the next page offset) are fields of
  their own, so that a store whose count disagrees with its pages is a value of the type.
\<close>

record source_collection =
  points_count :: int
  vectors_size :: int
  vectors_distance :: distance
  scroll_page :: "int \<Rightarrow> int \<Rightarrow> point list \<times> int option"

type_synonym source_client = "string \<rightharpoonup> source_collection"

record target_collection =
  target_size :: int
  target_distance :: distance
  target_points :: "point list"

type_synonym target_client = "string \<rightharpoonup> target_collection"

definition source_get_collection :: "source_client \<Rightarrow> string \<Rightarrow> py_error + source_collection" where
  "source_get_collection src name =
     (case src name of None \<Rightarrow> Inl (CollectionNotFound name) | Some c \<Rightarrow> Inr c)"

definition source_scroll ::
  "source_client \<Rightarrow> string \<Rightarrow> int \<Rightarrow> int \<Rightarrow> py_error + (point list \<times> int option)" where
  "source_scroll src name offset limit =
     (case src name of
        None \<Rightarrow> Inl (CollectionNotFound name)
      | Some c \<Rightarrow> Inr (scroll_page c offset limit))"

definition target_get_collection :: "target_client \<Rightarrow> string \<Rightarrow> py_error + target_collection" where
  "target_get_collection tgt name =
     (case tgt name of None \<Rightarrow> Inl (CollectionNotFound name) | Some c \<Rightarrow> Inr c)"

text \<open>The count a target collection reports is the number of points it holds.\<close>

definition target_points_count :: "target_collection \<Rightarrow> int" where
  "target_points_count c = int (length (target_points c))"

text \<open>\<open>recreate_collection\<close> drops the collection if it is there and creates it empty.\<close>

definition target_recreate_collection ::
  "target_client \<Rightarrow> string \<Rightarrow> int \<Rightarrow> distance \<Rightarrow> target_client" where
  "target_recreate_collection tgt name vsize metric =
     tgt(name \<mapsto> \<lparr>target_size = vsize, target_distance = metric, target_points = []\<rparr>)"

text \<open>
  Modelled from the spec: the destination store behind the client library, which is not
  part of the repository. A write is an upsert keyed by the point id (Sink Writer):
  a point whose id is already stored replaces the stored point, any other point is added.
\<close>

fun upsert_point :: "point \<Rightarrow> point list \<Rightarrow> point list" where
  "upsert_point p [] = [p]"
| "upsert_point p (q # qs) =
     (if point_id q = point_id p then p # qs else q # upsert_point p qs)"

definition upsert_all :: "point list \<Rightarrow> point list \<Rightarrow> point list" where
  "upsert_all ps stored = fold upsert_point ps stored"

definition target_upsert ::
  "target_client \<Rightarrow> string \<Rightarrow> point list \<Rightarrow> py_error + target_client" where
  "target_upsert tgt name ps =
     (case tgt name of
        None \<Rightarrow> Inl (CollectionNotFound name)
      | Some c \<Rightarrow> Inr (tgt(name \<mapsto> c\<lparr>target_points := upsert_all ps (target_points c)\<rparr>)))"

section \<open>The migration job (cloud-jobs/qdrant-migrate/main.py)\<close>

text \<open>
  What a run does to the outside is kept as a trace, in order: the calls to the two clients
  and the printed lines that report progress, a count mismatch, an error or completion.
  The progress line shows a percentage, a rate and an ETA that Python computes in floating
  point from the two counters and the wall clock; the event keeps the counters.
\<close>

datatype event =
    SourceGetCollections
  | SourceGetCollection string
  | SourceScroll string int int
  | TargetGetCollections
  | TargetGetCollection string
  | TargetRecreateCollection string int distance
  | TargetUpsert string "point list"
  | PrintProgress int int
  | PrintMismatchWarning int int
  | PrintNotFound string
  | PrintError py_error
  | PrintCompleted

record world =
  target :: target_client
  trace :: "event list"

definition emit :: "event list \<Rightarrow> world \<Rightarrow> world" where
  "emit es w = w\<lparr>trace := trace w @ es\<rparr>"

definition ensure_collection_exists :: "world \<Rightarrow> string \<Rightarrow> int \<Rightarrow> world" where
  "ensure_collection_exists w collection_name vector_size =
     (case target_get_collection (target w) collection_name of
        Inr _ \<Rightarrow> emit [TargetGetCollection collection_name] w
      | Inl _ \<Rightarrow>
          emit [TargetGetCollection collection_name,
                TargetRecreateCollection collection_name vector_size COSINE]
            (w\<lparr>target :=
                 target_recreate_collection (target w) collection_name vector_size COSINE\<rparr>))"

record scan_state =
  offset :: int
  migrated_count :: int
  env :: world

text \<open>
  The \<open>while offset < total_points\<close> loop of \<open>migrate_collection\<close>. Nothing bounds the
  number of rounds for a batch size below one, so the loop is a partial function: \<open>None\<close>
  is a run that never leaves the loop. An exception leaves it with the error and the world
  reached so far.
\<close>

partial_function (option) scan_loop ::
  "source_client \<Rightarrow> string \<Rightarrow> int \<Rightarrow> int \<Rightarrow> scan_state \<Rightarrow> ((py_error \<times> world) + scan_state) option"
where
  "scan_loop src collection_name batch_size total_points st =
     (if offset st < total_points then
        (let remaining = total_points - offset st;
             limit = min batch_size remaining;
             w1 = emit [SourceScroll collection_name (offset st) limit] (env st)
         in case source_scroll src collection_name (offset st) limit of
              Inl e \<Rightarrow> Some (Inl (e, w1))
            | Inr response \<Rightarrow>
               (let points = fst response in
                if points = [] then Some (Inr (st\<lparr>env := w1\<rparr>))
                else
                  (let upsert_points =
                         map (\<lambda>p. PointStruct (point_id p) (vector p) (payload p)) points;
                       w2 = emit [TargetUpsert collection_name upsert_points] w1
                   in case target_upsert (target w2) collection_name upsert_points of
                        Inl e \<Rightarrow> Some (Inl (e, w2))
                      | Inr tgt \<Rightarrow>
                         (let migrated = migrated_count st + int (length points)
                          in scan_loop src collection_name batch_size total_points
                               \<lparr>offset = offset st + limit,
                                migrated_count = migrated,
                                env = emit [PrintProgress migrated total_points]
                                        (w2\<lparr>target := tgt\<rparr>)\<rparr>))))
      else Some (Inr st))"

declare scan_loop.simps [code]

text \<open>
  \<open>datetime.utcnow()\<close> is read for the time stamp and for the duration; the two values
  a run puts into its result are taken from the clock.
\<close>

record clock =
  utcnow_isoformat :: string
  duration_seconds :: rat

definition migrate_collection ::
  "clock \<Rightarrow> source_client \<Rightarrow> world \<Rightarrow> string \<Rightarrow> int
     \<Rightarrow> ((py_error \<times> world) + (json \<times> world)) option" where
  "migrate_collection clk src w0 collection_name batch_size =
     (let w1 = emit [SourceGetCollection collection_name] w0 in
      case source_get_collection src collection_name of
        Inl e \<Rightarrow> Some (Inl (e, w1))
      | Inr source_collection_info \<Rightarrow>
         (let total_points = points_count source_collection_info;
              vector_size = vectors_size source_collection_info;
              w2 = ensure_collection_exists w1 collection_name vector_size
          in case scan_loop src collection_name batch_size total_points
                    \<lparr>offset = 0, migrated_count = 0, env = w2\<rparr> of
               None \<Rightarrow> None
             | Some (Inl ew) \<Rightarrow> Some (Inl ew)
             | Some (Inr st) \<Rightarrow>
                (let w3 = emit [TargetGetCollection collection_name] (env st) in
                 case target_get_collection (target w3) collection_name of
                   Inl e \<Rightarrow> Some (Inl (e, w3))
                 | Inr target_collection_info \<Rightarrow>
                    (let target_point_count = target_points_count target_collection_info;
                         w4 = (if target_point_count \<noteq> total_points
                               then emit [PrintMismatchWarning total_points target_point_count] w3
                               else w3);
                         migration_data =
                           JObj [(''metadata'', JObj
                             [(''collection'', JStr collection_name),
                              (''migrated_at'', JStr (utcnow_isoformat clk @ ''Z'')),
                              (''source_points'', JInt total_points),
                              (''target_points'', JInt target_point_count),
                              (''vector_size'', JInt vector_size),
                              (''migration_duration_seconds'', JFloat (duration_seconds clk))])]
                     in Some (Inr (migration_data, w4))))))"

text \<open>
  The environment variables \<open>main\<close> and the two client constructors read.
  \<open>SOURCE_QDRANT_PORT\<close> holds what \<open>int(os.getenv(...))\<close> gives: \<open>None\<close> when the
  conversion raises \<open>ValueError\<close>.
\<close>

record environ =
  COLLECTION_NAME :: "string option"
  SOURCE_QDRANT_PORT :: "int option"
  TARGET_QDRANT_HOST :: "string option"
  TARGET_QDRANT_API_KEY :: "string option"

definition get_source_qdrant_client :: "environ \<Rightarrow> py_error + unit" where
  "get_source_qdrant_client e =
     (case SOURCE_QDRANT_PORT e of
        None \<Rightarrow> Inl (ValueError ''invalid literal for int()'')
      | Some _ \<Rightarrow> Inr ())"

text \<open>\<open>not qdrant_host\<close> holds for an unset variable and for an empty one.\<close>

definition unset :: "string option \<Rightarrow> bool" where
  "unset v = (case v of None \<Rightarrow> True | Some s \<Rightarrow> s = [])"

definition get_target_qdrant_client :: "environ \<Rightarrow> py_error + unit" where
  "get_target_qdrant_client e =
     (if unset (TARGET_QDRANT_HOST e) \<or> unset (TARGET_QDRANT_API_KEY e)
      then Inl (ValueError ''TARGET_QDRANT_HOST and TARGET_QDRANT_API_KEY must be set'')
      else Inr ())"

record outcome =
  exit_code :: int
  final :: world
  migration_result :: "json option"

text \<open>The \<open>except Exception\<close> branch of \<open>main\<close>: print the error, \<open>sys.exit(1)\<close>.\<close>

definition except_exit :: "py_error \<Rightarrow> world \<Rightarrow> outcome" where
  "except_exit e w = \<lparr>exit_code = 1, final = emit [PrintError e] w, migration_result = None\<rparr>"

text \<open>\<open>os.getenv("COLLECTION_NAME", "sengol_incidents")\<close>.\<close>

definition configured_collection :: "environ \<Rightarrow> string" where
  "configured_collection e =
     (case COLLECTION_NAME e of None \<Rightarrow> ''sengol_incidents'' | Some n \<Rightarrow> n)"

definition main ::
  "environ \<Rightarrow> clock \<Rightarrow> source_client \<Rightarrow> target_client \<Rightarrow> outcome option" where
  "main e clk src tgt =
     (let collection_name = configured_collection e;
          w0 = \<lparr>target = tgt, trace = []\<rparr>
      in case get_source_qdrant_client e of
           Inl err \<Rightarrow> Some (except_exit err w0)
         | Inr _ \<Rightarrow>
            (case get_target_qdrant_client e of
               Inl err \<Rightarrow> Some (except_exit err w0)
             | Inr _ \<Rightarrow>
                (let w1 = emit [SourceGetCollections] w0 in
                 if collection_name \<notin> dom src
                 then Some \<lparr>exit_code = 1,
                            final = emit [PrintNotFound collection_name] w1,
                            migration_result = None\<rparr>
                 else
                   (let w2 = emit [TargetGetCollections] w1 in
                    case migrate_collection clk src w2 collection_name 100 of
                      None \<Rightarrow> None
                    | Some (Inl (err, w)) \<Rightarrow> Some (except_exit err w)
                    | Some (Inr (migration_data, w)) \<Rightarrow>
                        Some \<lparr>exit_code = 0,
                              final = emit [PrintCompleted] w,
                              migration_result = Some migration_data\<rparr>))))"

section \<open>The export job (cloud-jobs/export-qdrant-to-gcs/main.py)\<close>

record export_state =
  export_offset :: int
  all_points :: "point list"
  export_trace :: "event list"

text \<open>The same scan without the empty-page \<open>break\<close>: every page is appended.\<close>

partial_function (option) export_loop ::
  "source_client \<Rightarrow> string \<Rightarrow> int \<Rightarrow> int \<Rightarrow> export_state
     \<Rightarrow> ((py_error \<times> event list) + export_state) option"
where
  "export_loop client collection_name batch_size total_points st =
     (if export_offset st < total_points then
        (let remaining = total_points - export_offset st;
             limit = min batch_size remaining;
             tr1 = export_trace st @ [SourceScroll collection_name (export_offset st) limit]
         in case source_scroll client collection_name (export_offset st) limit of
              Inl e \<Rightarrow> Some (Inl (e, tr1))
            | Inr response \<Rightarrow>
                export_loop client collection_name batch_size total_points
                  \<lparr>export_offset = export_offset st + limit,
                   all_points = all_points st @ fst response,
                   export_trace =
                     tr1 @ [PrintProgress (export_offset st + limit) total_points]\<rparr>)
      else Some (Inr st))"

declare export_loop.simps [code]

definition export_collection ::
  "clock \<Rightarrow> source_client \<Rightarrow> string \<Rightarrow> int
     \<Rightarrow> ((py_error \<times> event list) + (json \<times> event list)) option" where
  "export_collection clk client collection_name batch_size =
     (let tr0 = [SourceGetCollection collection_name] in
      case source_get_collection client collection_name of
        Inl e \<Rightarrow> Some (Inl (e, tr0))
      | Inr collection_info \<Rightarrow>
         (let total_points = points_count collection_info in
          case export_loop client collection_name batch_size total_points
                 \<lparr>export_offset = 0, all_points = [], export_trace = tr0\<rparr> of
            None \<Rightarrow> None
          | Some (Inl et) \<Rightarrow> Some (Inl et)
          | Some (Inr st) \<Rightarrow>
              Some (Inr
                (JObj [(''metadata'', JObj
                         [(''collection'', JStr collection_name),
                          (''exported_at'', JStr (utcnow_isoformat clk @ ''Z'')),
                          (''total_points'', JInt (int (length (all_points st))))]),
                       (''points'', JList
                         (map (\<lambda>p. JObj [(''id'', point_id p),
                                          (''vector'', vector p),
                                          (''payload'', payload p)])
                              (all_points st)))],
                 export_trace st))))"

section \<open>Reading a trace\<close>

definition scroll_request :: "event \<Rightarrow> (int \<times> int) list" where
  "scroll_request e = (case e of SourceScroll _ off limit \<Rightarrow> [(off, limit)] | _ \<Rightarrow> [])"

text \<open>The scroll calls of a trace, in order, each as (offset, limit).\<close>

definition scroll_requests :: "event list \<Rightarrow> (int \<times> int) list" where
  "scroll_requests tr = concat (map scroll_request tr)"

text \<open>The batches the store returns to the scroll calls of a trace.\<close>

definition returned_batches :: "source_collection \<Rightarrow> event list \<Rightarrow> point list list" where
  "returned_batches c tr = map (\<lambda>(off, limit). fst (scroll_page c off limit)) (scroll_requests tr)"

definition is_create :: "event \<Rightarrow> bool" where
  "is_create e = (case e of TargetRecreateCollection _ _ _ \<Rightarrow> True | _ \<Rightarrow> False)"

definition is_upsert :: "event \<Rightarrow> bool" where
  "is_upsert e = (case e of TargetUpsert _ _ \<Rightarrow> True | _ \<Rightarrow> False)"

definition is_progress :: "event \<Rightarrow> bool" where
  "is_progress e = (case e of PrintProgress _ _ \<Rightarrow> True | _ \<Rightarrow> False)"

section \<open>A store that pages by offset\<close>

text \<open>
  Modelled from the spec: the source store behind the client library, which is not part
  of the repository. It follows the Paginator contract: \<open>scan(offset, limit)\<close> returns at
  most \<open>limit\<close> records starting after the first \<open>offset\<close> ones, with
  \<open>next_offset = offset + len(records)\<close> unless the scan is exhausted, when it is null;
  the count it reports is the number of records it holds.
\<close>

definition offset_scan :: "point list \<Rightarrow> int \<Rightarrow> int \<Rightarrow> point list \<times> int option" where
  "offset_scan recs off limit =
     (let records = take (nat limit) (drop (nat off) recs);
          next_offset = off + int (length records)
      in (records, if next_offset < int (length recs) then Some next_offset else None))"

definition offset_store :: "point list \<Rightarrow> int \<Rightarrow> distance \<Rightarrow> source_collection" where
  "offset_store recs vsize metric =
     \<lparr>points_count = int (length recs),
      vectors_size = vsize,
      vectors_distance = metric,
      scroll_page = offset_scan recs\<rparr>"

text \<open>The trace a loop leaves behind, whether it ended normally or with an exception.\<close>

definition result_trace :: "((py_error \<times> world) + scan_state) \<Rightarrow> event list" where
  "result_trace r = (case r of Inl (e, w) \<Rightarrow> trace w | Inr st \<Rightarrow> trace (env st))"

definition export_result_trace :: "((py_error \<times> event list) + export_state) \<Rightarrow> event list" where
  "export_result_trace r = (case r of Inl (e, tr) \<Rightarrow> tr | Inr st \<Rightarrow> export_trace st)"

definition run_trace :: "((py_error \<times> world) + (json \<times> world)) \<Rightarrow> event list" where
  "run_trace r = (case r of Inl (e, w) \<Rightarrow> trace w | Inr (d, w) \<Rightarrow> trace w)"

text \<open>\<open>migration_result['metadata'][key]\<close>, when the run produced a result with that key.\<close>

definition json_field :: "string \<Rightarrow> json \<Rightarrow> json option" where
  "json_field key j = (case j of JObj kvs \<Rightarrow> map_of kvs key | _ \<Rightarrow> None)"

definition metadata_field :: "string \<Rightarrow> outcome \<Rightarrow> json option" where
  "metadata_field key out =
     Option.bind (migration_result out)
       (\<lambda>d. Option.bind (json_field ''metadata'' d) (json_field key))"

section \<open>The loader's record transformer (cloud-functions-fixed/qdrant-loader/main.py)\<close>

text \<open>Python truth value of a parsed JSON value, as \<open>or\<close> tests it.\<close>

fun truthy :: "json \<Rightarrow> bool" where
  "truthy JNull = False"
| "truthy (JBool b) = b"
| "truthy (JInt i) = (i \<noteq> 0)"
| "truthy (JFloat r) = (r \<noteq> 0)"
| "truthy (JStr s) = (s \<noteq> [])"
| "truthy (JList xs) = (xs \<noteq> [])"
| "truthy (JObj kvs) = (kvs \<noteq> [])"

text \<open>\<open>a or b\<close>: the first operand when it is true, the second otherwise.\<close>

definition py_or :: "json \<Rightarrow> json \<Rightarrow> json" where
  "py_or a b = (if truthy a then a else b)"

text \<open>\<open>obj.get(key, default)\<close>: only a \<open>dict\<close> has the method.\<close>

definition py_get :: "json \<Rightarrow> string \<Rightarrow> json \<Rightarrow> py_error + json" where
  "py_get obj key dflt =
     (case obj of
        JObj kvs \<Rightarrow> Inr (case map_of kvs key of None \<Rightarrow> dflt | Some v \<Rightarrow> v)
      | _ \<Rightarrow> Inl AttributeError)"

text \<open>\<open>obj[key]\<close> with a string key.\<close>

definition py_subscript :: "json \<Rightarrow> string \<Rightarrow> py_error + json" where
  "py_subscript obj key =
     (case obj of
        JObj kvs \<Rightarrow> (case map_of kvs key of None \<Rightarrow> Inl (KeyError key) | Some v \<Rightarrow> Inr v)
      | _ \<Rightarrow> Inl TypeError)"

text \<open>
  \<open>value[:n]\<close>: a prefix of a \<open>str\<close> or of a \<open>list\<close>; any other value cannot be sliced
  (\<open>TypeError\<close>; for a \<open>dict\<close>, \<open>KeyError\<close> from Python 3.12 on).
\<close>

definition py_prefix :: "nat \<Rightarrow> json \<Rightarrow> py_error + json" where
  "py_prefix n v =
     (case v of
        JStr s \<Rightarrow> Inr (JStr (take n s))
      | JList xs \<Rightarrow> Inr (JList (take n xs))
      | _ \<Rightarrow> Inl TypeError)"

text \<open>Run the next step unless the previous one raised.\<close>

definition py_bind :: "py_error + 'a \<Rightarrow> ('a \<Rightarrow> py_error + 'b) \<Rightarrow> py_error + 'b" where
  "py_bind m f = (case m of Inl e \<Rightarrow> Inl e | Inr v \<Rightarrow> f v)"

text \<open>
  The body of the \<open>for emb in batch\<close> loop of \<open>load_to_qdrant\<close>: one parsed JSONL record
  to one point, in the order Python evaluates it. \<open>PointStruct\<close> is the plain constructor;
  the type checks the client library runs on \<open>id\<close> and \<open>vector\<close> are not part of it.
\<close>

definition build_point :: "json \<Rightarrow> py_error + point" where
  "build_point emb =
     py_bind (py_get emb ''metadata'' (JObj [])) (\<lambda>metadata.
     py_bind (py_get metadata ''original_record'' (JObj [])) (\<lambda>original_record.
     py_bind (py_get original_record ''description'' JNull) (\<lambda>description.
     py_bind (py_get original_record ''text'' JNull) (\<lambda>text.
     py_bind (py_get original_record ''abstract'' JNull) (\<lambda>abstract.
     py_bind (py_get emb ''embedding_text'' (JStr [])) (\<lambda>embedding_text.
     (let content = py_or description (py_or text (py_or abstract embedding_text)) in
     py_bind (py_subscript emb ''id'') (\<lambda>emb_id.
     py_bind (py_subscript emb ''embedding'') (\<lambda>embedding.
     py_bind (py_get emb ''embedding_id'' JNull) (\<lambda>embedding_id.
     py_bind (py_prefix 1000 content) (\<lambda>content_1000.
     py_bind (py_get metadata ''source_file'' JNull) (\<lambda>source_file.
     py_bind (py_get metadata ''category'' JNull) (\<lambda>category.
     py_bind (py_get original_record ''title'' JNull) (\<lambda>title.
     py_bind (py_get original_record ''severity'' JNull) (\<lambda>severity.
     py_bind (py_get original_record ''organization'' JNull) (\<lambda>organization.
     py_bind (py_get original_record ''incident_date'' JNull) (\<lambda>incident_date.
       Inr (PointStruct emb_id embedding
             (JObj [(''embedding_id'', embedding_id),
                    (''embedding_text'', embedding_text),
                    (''content'', content_1000),
                    (''source_file'', source_file),
                    (''category'', category),
                    (''metadata'', JObj [(''title'', title),
                                         (''severity'', severity),
                                         (''organization'', organization),
                                         (''incident_date'', incident_date)])])))))))))))))))))))"

text \<open>The points of one batch; the first record that raises ends the batch.\<close>

fun build_points :: "json list \<Rightarrow> py_error + point list" where
  "build_points [] = Inr []"
| "build_points (emb # batch) =
     py_bind (build_point emb) (\<lambda>point.
     py_bind (build_points batch) (\<lambda>points. Inr (point # points)))"

text \<open>
  How the transformer reads a record, for stating what it returns: the value under a key
  or a default, and the \<open>dict\<close> under a key (empty when the key is absent, none when the
  value is not a \<open>dict\<close>).
\<close>

definition field_or :: "(string \<times> json) list \<Rightarrow> string \<Rightarrow> json \<Rightarrow> json" where
  "field_or kvs key dflt = (case map_of kvs key of None \<Rightarrow> dflt | Some v \<Rightarrow> v)"



section \<open>What a count-driven scan asks for\<close>

text \<open>
  Round \<open>i\<close> of a scan that starts at \<open>start\<close> asks for the page at offset
  \<open>start + i * batch_size\<close>, limited to what the count says is left.
\<close>

definition planned_request :: "int \<Rightarrow> int \<Rightarrow> int \<Rightarrow> nat \<Rightarrow> int \<times> int" where
  "planned_request start batch_size total_points i =
     (start + int i * batch_size, min batch_size (total_points - (start + int i * batch_size)))"

definition planned_page :: "source_collection \<Rightarrow> int \<Rightarrow> int \<Rightarrow> int \<Rightarrow> nat \<Rightarrow> point list" where
  "planned_page c start batch_size total_points i =
     fst (scroll_page c (fst (planned_request start batch_size total_points i))
                        (snd (planned_request start batch_size total_points i)))"

text \<open>
  A list of scroll calls is count driven when: every call is the planned one and is made
  while its offset is below the total; every page before the last call was non-empty;
  and after the last call either the offset has reached the total or the last page was
  empty. Only the points of a page enter, never its next offset.
\<close>

definition count_driven ::
  "source_collection \<Rightarrow> int \<Rightarrow> int \<Rightarrow> int \<Rightarrow> (int \<times> int) list \<Rightarrow> bool" where
  "count_driven c start batch_size total_points reqs =
     ((\<forall>i < length reqs. reqs ! i = planned_request start batch_size total_points i \<and>
                          start + int i * batch_size < total_points) \<and>
      (\<forall>i. Suc i < length reqs \<longrightarrow> planned_page c start batch_size total_points i \<noteq> []) \<and>
      (total_points \<le> start + int (length reqs) * batch_size \<or>
       (reqs \<noteq> [] \<and> planned_page c start batch_size total_points (length reqs - 1) = [])))"

section \<open>Sample data\<close>

definition sample_points :: "point list" where
  "sample_points =
     [PointStruct (JInt 1) (JList [JFloat 1, JFloat 0]) (JObj [(''title'', JStr ''a'')]),
      PointStruct (JInt 2) (JList [JFloat 0, JFloat 1]) (JObj [(''title'', JStr ''b'')]),
      PointStruct (JInt 3) (JList [JFloat 1, JFloat 1]) (JObj [])]"

definition sample_source :: source_client where
  "sample_source = [''sengol_incidents'' \<mapsto> offset_store sample_points 2 DOT]"

text \<open>A store whose count is stale: it reports two points and holds one.\<close>

definition stale_collection :: source_collection where
  "stale_collection = (offset_store (take 1 sample_points) 2 DOT)\<lparr>points_count := 2\<rparr>"

definition stale_source :: source_client where
  "stale_source = [''sengol_incidents'' \<mapsto> stale_collection]"

text \<open>An empty source collection.\<close>

definition empty_source :: source_client where
  "empty_source = [''sengol_incidents'' \<mapsto> offset_store [] 2 DOT]"

text \<open>A destination that already holds a point the source does not have.\<close>

definition occupied_target :: target_client where
  "occupied_target =
     [''sengol_incidents'' \<mapsto>
        \<lparr>target_size = 2, target_distance = COSINE,
         target_points = [PointStruct (JInt 99) (JList [JFloat 0, JFloat 0]) (JObj [])]\<rparr>]"

definition sample_environ :: environ where
  "sample_environ =
     \<lparr>COLLECTION_NAME = None,
      SOURCE_QDRANT_PORT = Some 6333,
      TARGET_QDRANT_HOST = Some ''example.cloud.qdrant.io'',
      TARGET_QDRANT_API_KEY = Some ''key''\<rparr>"

definition sample_clock :: clock where
  "sample_clock = \<lparr>utcnow_isoformat = ''2024-01-01T00:00:00'', duration_seconds = 2\<rparr>"

section \<open>Lemmas about the scan loops\<close>

lemma rebuild_points: "map (\<lambda>p. PointStruct (point_id p) (vector p) (payload p)) ps = ps"
  by simp

lemma scan_loop_stop:
  "\<not> offset st < total_points \<Longrightarrow>
     scan_loop src name batch_size total_points st = Some (Inr st)"
  by (subst scan_loop.simps) simp

lemma scan_loop_empty_page:
  assumes "offset st < total_points" and "src name = Some c"
    and "fst (scroll_page c (offset st) (min batch_size (total_points - offset st))) = []"
  shows "scan_loop src name batch_size total_points st =
           Some (Inr (st\<lparr>env := emit [SourceScroll name (offset st)
                                  (min batch_size (total_points - offset st))] (env st)\<rparr>))"
  using assms by (subst scan_loop.simps) (simp add: Let_def source_scroll_def)

lemma scan_loop_round:
  assumes "offset st < total_points" and "src name = Some c"
    and "target (env st) name = Some tc"
    and "limit = min batch_size (total_points - offset st)"
    and "page = fst (scroll_page c (offset st) limit)"
    and "page \<noteq> []"
  shows "scan_loop src name batch_size total_points st =
           scan_loop src name batch_size total_points
             \<lparr>offset = offset st + limit,
              migrated_count = migrated_count st + int (length page),
              env = (env st)\<lparr>target := (target (env st))
                                (name \<mapsto> tc\<lparr>target_points := upsert_all page (target_points tc)\<rparr>),
                     trace := trace (env st) @
                               [SourceScroll name (offset st) limit,
                                TargetUpsert name page,
                                PrintProgress (migrated_count st + int (length page)) total_points]\<rparr>\<rparr>"
  using assms
  by (subst scan_loop.simps)
     (simp add: Let_def source_scroll_def target_upsert_def emit_def rebuild_points)

lemma ceiling_round:
  fixes b n :: int
  assumes "1 \<le> b" and "0 < n"
  shows "\<lceil>real_of_int n / real_of_int b\<rceil> = 1 + \<lceil>real_of_int (n - min b n) / real_of_int b\<rceil>"
proof (cases "n \<le> b")
  case True
  have "0 < real_of_int n / real_of_int b" and "real_of_int n / real_of_int b \<le> 1"
    using assms True by simp_all
  then have "\<lceil>real_of_int n / real_of_int b\<rceil> = 1"
    by (simp add: ceiling_eq_iff)
  then show ?thesis
    using True by (simp add: min_def)
next
  case False
  have "real_of_int (n - b) / real_of_int b = real_of_int n / real_of_int b - 1"
    using assms by (simp add: field_simps)
  then show ?thesis
    using False by (simp add: min_def)
qed

lemma scroll_requests_append [simp]:
  "scroll_requests (a @ b) = scroll_requests a @ scroll_requests b"
  by (simp add: scroll_requests_def)

lemma scroll_requests_simps [simp]:
  "scroll_requests [] = []"
  "scroll_requests (SourceScroll n off limit # tr) = (off, limit) # scroll_requests tr"
  "scroll_requests (TargetUpsert n ps # tr) = scroll_requests tr"
  "scroll_requests (PrintProgress a b # tr) = scroll_requests tr"
  "scroll_requests (TargetGetCollection n # tr) = scroll_requests tr"
  "scroll_requests (SourceGetCollection n # tr) = scroll_requests tr"
  "scroll_requests (TargetRecreateCollection n v m # tr) = scroll_requests tr"
  "scroll_requests (PrintMismatchWarning a b # tr) = scroll_requests tr"
  by (simp_all add: scroll_requests_def scroll_request_def)

lemma upsert_all_append: "upsert_all (xs @ ys) s = upsert_all ys (upsert_all xs s)"
  by (simp add: upsert_all_def)

lemma offset_page:
  assumes "0 \<le> off" and "off < int (length recs)" and "1 \<le> b"
    and "limit = min b (int (length recs) - off)"
  shows "fst (offset_scan recs off limit) = take (nat limit) (drop (nat off) recs)"
    and "length (fst (offset_scan recs off limit)) = nat limit"
    and "fst (offset_scan recs off limit) \<noteq> []"
    and "fst (offset_scan recs off limit) @ drop (nat (off + limit)) recs = drop (nat off) recs"
proof -
  show p: "fst (offset_scan recs off limit) = take (nat limit) (drop (nat off) recs)"
    by (simp add: offset_scan_def Let_def)
  have "limit \<le> int (length recs) - off"
    using assms(4) by simp
  then have "nat limit \<le> length recs - nat off"
    using assms(1) by linarith
  then show l: "length (fst (offset_scan recs off limit)) = nat limit"
    by (simp add: p)
  show "fst (offset_scan recs off limit) \<noteq> []"
    using l assms by (auto simp: min_def)
  have "1 \<le> limit"
    using assms by simp
  then have "nat (off + limit) = nat limit + nat off"
    using assms(1) by linarith
  moreover have "take (nat limit) (drop (nat off) recs) @ drop (nat limit + nat off) recs =
                   drop (nat off) recs"
    using append_take_drop_id [of "nat limit" "drop (nat off) recs"] by simp
  ultimately show
    "fst (offset_scan recs off limit) @ drop (nat (off + limit)) recs = drop (nat off) recs"
    by (simp add: p)
qed

lemma scan_loop_offset_store:
  assumes b: "1 \<le> batch_size"
    and src: "src name = Some (offset_store recs vsize metric)"
  shows "0 \<le> offset st \<Longrightarrow> offset st \<le> int (length recs) \<Longrightarrow>
         target (env st) name = Some tc \<Longrightarrow>
         \<exists>st' new.
           scan_loop src name batch_size (int (length recs)) st = Some (Inr st') \<and>
           offset st' = int (length recs) \<and>
           migrated_count st' = migrated_count st + (int (length recs) - offset st) \<and>
           trace (env st') = trace (env st) @ new \<and>
           int (length (scroll_requests new)) =
             \<lceil>real_of_int (int (length recs) - offset st) / real_of_int batch_size\<rceil> \<and>
           int (sum_list (map length (returned_batches (offset_store recs vsize metric) new))) =
             int (length recs) - offset st \<and>
           target (env st') =
             (target (env st))
               (name \<mapsto> tc\<lparr>target_points :=
                               upsert_all (drop (nat (offset st)) recs) (target_points tc)\<rparr>)"
proof (induction "nat (int (length recs) - offset st)" arbitrary: st tc rule: less_induct)
  case less
  let ?N = "int (length recs)"
  let ?c = "offset_store recs vsize metric"
  show ?case
  proof (cases "offset st < ?N")
    case False
    with less.prems have eq: "offset st = ?N" by simp
    have "scan_loop src name batch_size ?N st = Some (Inr st)"
      using False by (rule scan_loop_stop)
    moreover have "(target (env st))(name \<mapsto> tc\<lparr>target_points :=
                      upsert_all (drop (nat (offset st)) recs) (target_points tc)\<rparr>) = target (env st)"
      using less.prems(3) eq by (auto simp: upsert_all_def)
    ultimately show ?thesis
      using eq by (intro exI [of _ st] exI [of _ "[]"]) (simp add: returned_batches_def)
  next
    case True
    define limit where "limit = min batch_size (?N - offset st)"
    define page where "page = fst (scroll_page ?c (offset st) limit)"
    have page_scan: "page = fst (offset_scan recs (offset st) limit)"
      by (simp add: page_def offset_store_def)
    note pg = offset_page [OF less.prems(1) True b limit_def, folded page_scan]
    have pos: "1 \<le> limit" using True b by (simp add: limit_def)
    define tc' where "tc' = tc\<lparr>target_points := upsert_all page (target_points tc)\<rparr>"
    define st1 where "st1 =
      \<lparr>offset = offset st + limit,
       migrated_count = migrated_count st + int (length page),
       env = (env st)\<lparr>target := (target (env st))(name \<mapsto> tc'),
                     trace := trace (env st) @
                       [SourceScroll name (offset st) limit,
                        TargetUpsert name page,
                        PrintProgress (migrated_count st + int (length page)) ?N]\<rparr>\<rparr>"
    have step: "scan_loop src name batch_size ?N st = scan_loop src name batch_size ?N st1"
      unfolding st1_def tc'_def
      by (rule scan_loop_round [where c = "?c"])
         (use True src less.prems(3) limit_def page_def pg(3) in blast)+
    have o1: "offset st1 = offset st + limit" by (simp add: st1_def)
    have dec: "nat (?N - offset st1) < nat (?N - offset st)"
      using True pos by (simp add: o1)
    have r1: "0 \<le> offset st1" using less.prems(1) pos by (simp add: o1)
    have r2: "offset st1 \<le> ?N" using True by (simp add: o1 limit_def)
    have r3: "target (env st1) name = Some tc'" by (simp add: st1_def)
    from less.hyps [OF dec r1 r2 r3]
    obtain st' new where
      run: "scan_loop src name batch_size ?N st1 = Some (Inr st')"
      and off: "offset st' = ?N"
      and mig: "migrated_count st' = migrated_count st1 + (?N - offset st1)"
      and tr: "trace (env st') = trace (env st1) @ new"
      and cnt: "int (length (scroll_requests new)) =
                  \<lceil>real_of_int (?N - offset st1) / real_of_int batch_size\<rceil>"
      and sm: "int (sum_list (map length (returned_batches ?c new))) = ?N - offset st1"
      and tg: "target (env st') =
                 (target (env st1))(name \<mapsto> tc'\<lparr>target_points :=
                    upsert_all (drop (nat (offset st1)) recs) (target_points tc')\<rparr>)"
      by blast
    let ?new = "[SourceScroll name (offset st) limit, TargetUpsert name page,
                 PrintProgress (migrated_count st + int (length page)) ?N] @ new"
    have g1: "scan_loop src name batch_size ?N st = Some (Inr st')"
      using step run by simp
    have g3: "migrated_count st' = migrated_count st + (?N - offset st)"
      using mig pg(2) pos by (simp add: st1_def)
    have g4: "trace (env st') = trace (env st) @ ?new"
      using tr by (simp add: st1_def)
    have e: "?N - offset st1 = (?N - offset st) - min batch_size (?N - offset st)"
      by (simp add: o1 limit_def)
    have c1: "\<lceil>real_of_int (?N - offset st) / real_of_int batch_size\<rceil> =
                1 + \<lceil>real_of_int ((?N - offset st) - min batch_size (?N - offset st))
                        / real_of_int batch_size\<rceil>"
      using True by (intro ceiling_round [OF b]) simp
    have c2: "int (length (scroll_requests ?new)) = 1 + int (length (scroll_requests new))"
      by simp
    have g5: "int (length (scroll_requests ?new)) =
                     \<lceil>real_of_int (?N - offset st) / real_of_int batch_size\<rceil>"
      by (simp only: c2 cnt c1 e)
    have g6: "int (sum_list (map length (returned_batches ?c ?new))) = ?N - offset st"
      using sm pg(2) pos
      by (simp add: returned_batches_def o1 page_def)
    have "upsert_all (drop (nat (offset st1)) recs) (target_points tc') =
            upsert_all (drop (nat (offset st)) recs) (target_points tc)"
      using pg(4) by (simp add: tc'_def o1 upsert_all_append [symmetric])
    then have g7: "target (env st') =
             (target (env st))(name \<mapsto> tc\<lparr>target_points :=
                 upsert_all (drop (nat (offset st)) recs) (target_points tc)\<rparr>)"
      using tg by (simp add: st1_def tc'_def)
    show ?thesis
      using g1 off g3 g4 g5 g6 g7 by blast
  qed
qed

lemma export_loop_stop:
  "\<not> export_offset st < total_points \<Longrightarrow>
     export_loop src name batch_size total_points st = Some (Inr st)"
  by (subst export_loop.simps) simp

lemma export_loop_round:
  assumes "export_offset st < total_points" and "src name = Some c"
    and "limit = min batch_size (total_points - export_offset st)"
  shows "export_loop src name batch_size total_points st =
           export_loop src name batch_size total_points
             \<lparr>export_offset = export_offset st + limit,
              all_points = all_points st @ fst (scroll_page c (export_offset st) limit),
              export_trace = export_trace st @
                 [SourceScroll name (export_offset st) limit,
                  PrintProgress (export_offset st + limit) total_points]\<rparr>"
  using assms
  by (subst export_loop.simps) (simp add: Let_def source_scroll_def)

lemma export_loop_offset_store:
  assumes b: "1 \<le> batch_size"
    and src: "src name = Some (offset_store recs vsize metric)"
  shows "0 \<le> export_offset st \<Longrightarrow> export_offset st \<le> int (length recs) \<Longrightarrow>
         \<exists>st' new.
           export_loop src name batch_size (int (length recs)) st = Some (Inr st') \<and>
           export_offset st' = int (length recs) \<and>
           all_points st' = all_points st @ drop (nat (export_offset st)) recs \<and>
           export_trace st' = export_trace st @ new \<and>
           int (length (scroll_requests new)) =
             \<lceil>real_of_int (int (length recs) - export_offset st) / real_of_int batch_size\<rceil> \<and>
           int (sum_list (map length (returned_batches (offset_store recs vsize metric) new))) =
             int (length recs) - export_offset st"
proof (induction "nat (int (length recs) - export_offset st)" arbitrary: st rule: less_induct)
  case less
  let ?N = "int (length recs)"
  let ?c = "offset_store recs vsize metric"
  show ?case
  proof (cases "export_offset st < ?N")
    case False
    with less.prems have eq: "export_offset st = ?N" by simp
    have "export_loop src name batch_size ?N st = Some (Inr st)"
      using False by (rule export_loop_stop)
    then show ?thesis
      using eq by (intro exI [of _ st] exI [of _ "[]"]) (simp add: returned_batches_def)
  next
    case True
    define limit where "limit = min batch_size (?N - export_offset st)"
    define page where "page = fst (scroll_page ?c (export_offset st) limit)"
    have page_scan: "page = fst (offset_scan recs (export_offset st) limit)"
      by (simp add: page_def offset_store_def)
    note pg = offset_page [OF less.prems(1) True b limit_def, folded page_scan]
    have pos: "1 \<le> limit" using True b by (simp add: limit_def)
    define st1 where "st1 =
      \<lparr>export_offset = export_offset st + limit,
       all_points = all_points st @ page,
       export_trace = export_trace st @
          [SourceScroll name (export_offset st) limit,
           PrintProgress (export_offset st + limit) ?N]\<rparr>"
    have step: "export_loop src name batch_size ?N st = export_loop src name batch_size ?N st1"
      unfolding st1_def page_def
      by (rule export_loop_round [where src = src and name = name, OF True src limit_def])
    have o1: "export_offset st1 = export_offset st + limit" by (simp add: st1_def)
    have dec: "nat (?N - export_offset st1) < nat (?N - export_offset st)"
      using True pos by (simp add: o1)
    have r1: "0 \<le> export_offset st1" using less.prems(1) pos by (simp add: o1)
    have r2: "export_offset st1 \<le> ?N" using True by (simp add: o1 limit_def)
    from less.hyps [OF dec r1 r2]
    obtain st' new where
      run: "export_loop src name batch_size ?N st1 = Some (Inr st')"
      and off: "export_offset st' = ?N"
      and pts: "all_points st' = all_points st1 @ drop (nat (export_offset st1)) recs"
      and tr: "export_trace st' = export_trace st1 @ new"
      and cnt: "int (length (scroll_requests new)) =
                  \<lceil>real_of_int (?N - export_offset st1) / real_of_int batch_size\<rceil>"
      and sm: "int (sum_list (map length (returned_batches ?c new))) = ?N - export_offset st1"
      by blast
    let ?new = "[SourceScroll name (export_offset st) limit,
                 PrintProgress (export_offset st + limit) ?N] @ new"
    have g1: "export_loop src name batch_size ?N st = Some (Inr st')"
      using step run by simp
    have g3: "all_points st' = all_points st @ drop (nat (export_offset st)) recs"
      using pts pg(4) by (simp add: st1_def)
    have g4: "export_trace st' = export_trace st @ ?new"
      using tr by (simp add: st1_def)
    have e: "?N - export_offset st1 =
               (?N - export_offset st) - min batch_size (?N - export_offset st)"
      by (simp add: o1 limit_def)
    have c1: "\<lceil>real_of_int (?N - export_offset st) / real_of_int batch_size\<rceil> =
                1 + \<lceil>real_of_int ((?N - export_offset st) - min batch_size (?N - export_offset st))
                        / real_of_int batch_size\<rceil>"
      using True by (intro ceiling_round [OF b]) simp
    have c2: "int (length (scroll_requests ?new)) = 1 + int (length (scroll_requests new))"
      by simp
    have g5: "int (length (scroll_requests ?new)) =
                     \<lceil>real_of_int (?N - export_offset st) / real_of_int batch_size\<rceil>"
      by (simp only: c2 cnt c1 e)
    have g6: "int (sum_list (map length (returned_batches ?c ?new))) = ?N - export_offset st"
      using sm pg(2) pos
      by (simp add: returned_batches_def o1 page_def)
    show ?thesis
      using g1 off g3 g4 g5 g6 by blast
  qed
qed

lemma ensure_collection_exists_target:
  "\<exists>tc. target (ensure_collection_exists w name vsize) name = Some tc"
  by (simp add: ensure_collection_exists_def target_get_collection_def emit_def
        target_recreate_collection_def split: option.splits)

lemma ensure_collection_exists_requests [simp]:
  "scroll_requests (trace (ensure_collection_exists w name vsize)) = scroll_requests (trace w)"
  by (simp add: ensure_collection_exists_def target_get_collection_def emit_def
        split: option.splits)

lemma scan_loop_bounded:
  assumes "1 \<le> batch_size"
  shows "\<exists>r new. scan_loop src name batch_size total_points st = Some r \<and>
           result_trace r = trace (env st) @ new \<and>
           int (length (scroll_requests new)) \<le> max 0 (total_points - offset st)"
proof (induction "nat (total_points - offset st)" arbitrary: st rule: less_induct)
  case less
  show ?case
  proof (cases "offset st < total_points")
    case False
    then have "scan_loop src name batch_size total_points st = Some (Inr st)"
      by (subst scan_loop.simps) simp
    then show ?thesis
      by (intro exI [of _ "Inr st"] exI [of _ "[]"]) (simp add: result_trace_def)
  next
    case True
    define limit where "limit = min batch_size (total_points - offset st)"
    have pos: "1 \<le> limit" using True assms by (simp add: limit_def)
    have ih: "\<exists>r new. scan_loop src name batch_size total_points st1 = Some r \<and>
                result_trace r = trace (env st1) @ new \<and>
                int (length (scroll_requests new)) \<le> max 0 (total_points - offset st) - 1"
      if "offset st1 = offset st + limit" for st1
    proof -
      have "nat (total_points - offset st1) < nat (total_points - offset st)"
        using True pos that by simp
      from less [OF this] obtain r new where
        "scan_loop src name batch_size total_points st1 = Some r"
        "result_trace r = trace (env st1) @ new"
        "int (length (scroll_requests new)) \<le> max 0 (total_points - offset st1)"
        by blast
      moreover have "max 0 (total_points - offset st1) \<le> max 0 (total_points - offset st) - 1"
        using True pos that by simp
      ultimately show ?thesis by fastforce
    qed
    show ?thesis
    proof (cases "source_scroll src name (offset st) limit")
      case (Inl e)
      then have "scan_loop src name batch_size total_points st =
                   Some (Inl (e, emit [SourceScroll name (offset st) limit] (env st)))"
        using True by (subst scan_loop.simps) (simp add: Let_def limit_def)
      then show ?thesis
        using True
        by (intro exI [of _ "Inl (e, emit [SourceScroll name (offset st) limit] (env st))"]
                  exI [of _ "[SourceScroll name (offset st) limit]"])
           (simp add: result_trace_def emit_def)
    next
      case (Inr response)
      note resp = Inr
      show ?thesis
      proof (cases "fst response = []")
        case True
        then have "scan_loop src name batch_size total_points st =
                     Some (Inr (st\<lparr>env := emit [SourceScroll name (offset st) limit] (env st)\<rparr>))"
          using \<open>offset st < total_points\<close> resp
          by (subst scan_loop.simps) (simp add: Let_def limit_def)
        then show ?thesis
          using \<open>offset st < total_points\<close>
          by (intro exI [of _ "Inr (st\<lparr>env := emit [SourceScroll name (offset st) limit] (env st)\<rparr>)"]
                    exI [of _ "[SourceScroll name (offset st) limit]"])
             (simp add: result_trace_def emit_def)
      next
        case False
        define w2 where "w2 = emit [TargetUpsert name (fst response)]
                                (emit [SourceScroll name (offset st) limit] (env st))"
        have tw2: "trace w2 = trace (env st) @
                     [SourceScroll name (offset st) limit, TargetUpsert name (fst response)]"
          by (simp add: w2_def emit_def)
        show ?thesis
        proof (cases "target_upsert (target w2) name (fst response)")
          case (Inl e)
          then have "scan_loop src name batch_size total_points st = Some (Inl (e, w2))"
            using \<open>offset st < total_points\<close> resp False
            by (subst scan_loop.simps)
               (simp add: Let_def limit_def w2_def)
          then show ?thesis
            using \<open>offset st < total_points\<close>
            by (intro exI [of _ "Inl (e, w2)"]
                  exI [of _ "[SourceScroll name (offset st) limit, TargetUpsert name (fst response)]"])
               (simp add: result_trace_def tw2)
        next
          case (Inr tgt)
          define st1 where "st1 =
            \<lparr>offset = offset st + limit,
             migrated_count = migrated_count st + int (length (fst response)),
             env = emit [PrintProgress (migrated_count st + int (length (fst response)))
                           total_points] (w2\<lparr>target := tgt\<rparr>)\<rparr>"
          have step: "scan_loop src name batch_size total_points st =
                        scan_loop src name batch_size total_points st1"
            using \<open>offset st < total_points\<close> resp False Inr
            by (subst scan_loop.simps)
               (simp add: Let_def limit_def w2_def st1_def)
          from ih [of st1] obtain r new where
            r: "scan_loop src name batch_size total_points st1 = Some r"
               "result_trace r = trace (env st1) @ new"
               "int (length (scroll_requests new)) \<le> max 0 (total_points - offset st) - 1"
            by (auto simp: st1_def)
          have "trace (env st1) = trace (env st) @
                  [SourceScroll name (offset st) limit, TargetUpsert name (fst response),
                   PrintProgress (migrated_count st + int (length (fst response))) total_points]"
            by (simp add: st1_def emit_def tw2)
          with r step show ?thesis
            by (intro exI [of _ r]
                  exI [of _ "[SourceScroll name (offset st) limit, TargetUpsert name (fst response),
                   PrintProgress (migrated_count st + int (length (fst response))) total_points] @ new"])
               simp
        qed
      qed
    qed
  qed
qed

lemma export_loop_bounded:
  assumes "1 \<le> batch_size"
  shows "\<exists>r new. export_loop client name batch_size total_points st = Some r \<and>
           export_result_trace r = export_trace st @ new \<and>
           int (length (scroll_requests new)) \<le> max 0 (total_points - export_offset st)"
proof (induction "nat (total_points - export_offset st)" arbitrary: st rule: less_induct)
  case less
  show ?case
  proof (cases "export_offset st < total_points")
    case False
    then have "export_loop client name batch_size total_points st = Some (Inr st)"
      by (subst export_loop.simps) simp
    then show ?thesis
      by (intro exI [of _ "Inr st"] exI [of _ "[]"]) (simp add: export_result_trace_def)
  next
    case True
    define limit where "limit = min batch_size (total_points - export_offset st)"
    have pos: "1 \<le> limit" using True assms by (simp add: limit_def)
    let ?tr1 = "export_trace st @ [SourceScroll name (export_offset st) limit]"
    show ?thesis
    proof (cases "source_scroll client name (export_offset st) limit")
      case (Inl e)
      then have "export_loop client name batch_size total_points st = Some (Inl (e, ?tr1))"
        using True by (subst export_loop.simps) (simp add: Let_def limit_def)
      then show ?thesis
        using True
        by (intro exI [of _ "Inl (e, ?tr1)"] exI [of _ "[SourceScroll name (export_offset st) limit]"])
           (simp add: export_result_trace_def)
    next
      case (Inr response)
      define st1 where "st1 =
        \<lparr>export_offset = export_offset st + limit,
         all_points = all_points st @ fst response,
         export_trace = ?tr1 @ [PrintProgress (export_offset st + limit) total_points]\<rparr>"
      have step: "export_loop client name batch_size total_points st =
                    export_loop client name batch_size total_points st1"
        using True Inr
        by (subst export_loop.simps) (simp add: Let_def limit_def st1_def)
      have "nat (total_points - export_offset st1) < nat (total_points - export_offset st)"
        using True pos by (simp add: st1_def)
      from less [OF this] obtain r new where
        r: "export_loop client name batch_size total_points st1 = Some r"
           "export_result_trace r = export_trace st1 @ new"
           "int (length (scroll_requests new)) \<le> max 0 (total_points - export_offset st1)"
        by blast
      have "export_offset st1 = export_offset st + limit"
        by (simp add: st1_def)
      then have "int (length (scroll_requests new)) + 1 \<le> max 0 (total_points - export_offset st)"
        using r(3) True pos by linarith
      with r(1,2) step show ?thesis
        by (intro exI [of _ r]
              exI [of _ "[SourceScroll name (export_offset st) limit,
                          PrintProgress (export_offset st + limit) total_points] @ new"])
           (simp add: st1_def)
    qed
  qed
qed

section \<open>Termination of the scan (C10)\<close>

text \<open>
  C10. For every batch size of at least one and every total, the scan loop of the
  migration job and the scan loop of the export job return, whatever the source answers
  and whatever state they start from: each round that does not end the loop moves the
  offset forward by \<open>min(batch_size, total_points - offset) \<ge> 1\<close>, so a loop issues at
  most \<open>total_points - offset\<close> scroll calls before the guard \<open>offset < total_points\<close>
  fails.
\<close>

theorem scan_loops_terminate:
  assumes "1 \<le> batch_size"
  shows "(\<exists>r new. scan_loop src name batch_size total_points st = Some r \<and>
            result_trace r = trace (env st) @ new \<and>
            int (length (scroll_requests new)) \<le> max 0 (total_points - offset st)) \<and>
         (\<exists>r new. export_loop src name batch_size total_points xst = Some r \<and>
            export_result_trace r = export_trace xst @ new \<and>
            int (length (scroll_requests new)) \<le> max 0 (total_points - export_offset xst))"
  using scan_loop_bounded [OF assms] export_loop_bounded [OF assms] by blast

theorem scan_loops_terminate_witness:
  "(1::int) \<le> 2 \<and>
   (\<exists>r new. scan_loop sample_source ''sengol_incidents'' 2 3
               \<lparr>offset = 0, migrated_count = 0, env = \<lparr>target = Map.empty, trace = []\<rparr>\<rparr> = Some r \<and>
             result_trace r = [] @ new \<and> int (length (scroll_requests new)) \<le> 3) \<and>
   (\<exists>r new. export_loop sample_source ''sengol_incidents'' 2 3
               \<lparr>export_offset = 0, all_points = [], export_trace = []\<rparr> = Some r \<and>
             export_result_trace r = [] @ new \<and> int (length (scroll_requests new)) \<le> 3)"
proof -
  have h: "(1::int) \<le> 2" by simp
  show ?thesis
    using h scan_loops_terminate [OF h, of sample_source "''sengol_incidents''" 3
            "\<lparr>offset = 0, migrated_count = 0, env = \<lparr>target = Map.empty, trace = []\<rparr>\<rparr>"
            "\<lparr>export_offset = 0, all_points = [], export_trace = []\<rparr>"]
    by simp
qed

section \<open>Pagination exhaustion (C1)\<close>

text \<open>
  C1. For a source that holds \<open>total_count\<close> records and pages them by offset, and a
  batch limit of at least one, the scan loop of the migration job and the scan loop of
  the export job issue exactly \<open>ceil(total_count / limit)\<close> scroll calls, the sizes of the
  batches returned to those calls add up to \<open>total_count\<close>, and at the end
  \<open>migrated_count\<close> (for the export, the number of collected points) is
  \<open>total_count\<close>.
\<close>

theorem pagination_exhaustion:
  assumes "1 \<le> batch_size" and "src name = Some (offset_store recs vsize metric)"
  shows "(\<exists>st. scan_loop src name batch_size (points_count (offset_store recs vsize metric))
                 \<lparr>offset = 0, migrated_count = 0,
                  env = ensure_collection_exists
                          (emit [SourceGetCollection name] \<lparr>target = tgt, trace = []\<rparr>)
                          name vsize\<rparr> = Some (Inr st) \<and>
               int (length (scroll_requests (trace (env st)))) =
                 \<lceil>real (length recs) / real_of_int batch_size\<rceil> \<and>
               sum_list (map length
                 (returned_batches (offset_store recs vsize metric) (trace (env st)))) =
                 length recs \<and>
               migrated_count st = int (length recs)) \<and>
         (\<exists>st. export_loop src name batch_size (points_count (offset_store recs vsize metric))
                 \<lparr>export_offset = 0, all_points = [],
                  export_trace = [SourceGetCollection name]\<rparr> = Some (Inr st) \<and>
               int (length (scroll_requests (export_trace st))) =
                 \<lceil>real (length recs) / real_of_int batch_size\<rceil> \<and>
               sum_list (map length
                 (returned_batches (offset_store recs vsize metric) (export_trace st))) =
                 length recs \<and>
               length (all_points st) = length recs)"
proof
  let ?c = "offset_store recs vsize metric"
  let ?w = "ensure_collection_exists
              (emit [SourceGetCollection name] \<lparr>target = tgt, trace = []\<rparr>) name vsize"
  let ?st0 = "\<lparr>offset = 0, migrated_count = 0, env = ?w\<rparr>"
  obtain tc where tc: "target (env ?st0) name = Some tc"
    using ensure_collection_exists_target [of _ name vsize] by auto
  from scan_loop_offset_store [where src = src and name = name, OF assms, of ?st0 tc]
  obtain st' new where
    run: "scan_loop src name batch_size (int (length recs)) ?st0 = Some (Inr st')"
    and mig: "migrated_count st' = int (length recs)"
    and tr: "trace (env st') = trace ?w @ new"
    and cnt: "int (length (scroll_requests new)) =
                \<lceil>real (length recs) / real_of_int batch_size\<rceil>"
    and sm: "int (sum_list (map length (returned_batches ?c new))) = int (length recs)"
    using tc by auto
  have "returned_batches ?c (trace (env st')) = returned_batches ?c new"
    by (simp add: returned_batches_def tr emit_def)
  with run mig cnt sm tr
  show "\<exists>st. scan_loop src name batch_size (points_count ?c) ?st0 = Some (Inr st) \<and>
               int (length (scroll_requests (trace (env st)))) =
                 \<lceil>real (length recs) / real_of_int batch_size\<rceil> \<and>
               sum_list (map length (returned_batches ?c (trace (env st)))) = length recs \<and>
               migrated_count st = int (length recs)"
    by (intro exI [of _ st']) (simp add: offset_store_def emit_def)
next
  let ?c = "offset_store recs vsize metric"
  let ?st0 = "\<lparr>export_offset = 0, all_points = [], export_trace = [SourceGetCollection name]\<rparr>"
  from export_loop_offset_store [where src = src and name = name, OF assms, of ?st0]
  obtain st' new where
    run: "export_loop src name batch_size (int (length recs)) ?st0 = Some (Inr st')"
    and pts: "all_points st' = recs"
    and tr: "export_trace st' = [SourceGetCollection name] @ new"
    and cnt: "int (length (scroll_requests new)) =
                \<lceil>real (length recs) / real_of_int batch_size\<rceil>"
    and sm: "int (sum_list (map length (returned_batches ?c new))) = int (length recs)"
    by auto
  have "returned_batches ?c (export_trace st') = returned_batches ?c new"
    by (simp add: returned_batches_def tr)
  with run pts cnt sm tr
  show "\<exists>st. export_loop src name batch_size (points_count ?c) ?st0 = Some (Inr st) \<and>
               int (length (scroll_requests (export_trace st))) =
                 \<lceil>real (length recs) / real_of_int batch_size\<rceil> \<and>
               sum_list (map length (returned_batches ?c (export_trace st))) = length recs \<and>
               length (all_points st) = length recs"
    by (intro exI [of _ st']) (simp add: offset_store_def)
qed

theorem pagination_exhaustion_witness:
  "(1::int) \<le> 2 \<and>
   sample_source ''sengol_incidents'' = Some (offset_store sample_points 2 DOT) \<and>
   (\<exists>st. scan_loop sample_source ''sengol_incidents'' 2
            (points_count (offset_store sample_points 2 DOT))
            \<lparr>offset = 0, migrated_count = 0,
             env = ensure_collection_exists
                     (emit [SourceGetCollection ''sengol_incidents'']
                        \<lparr>target = Map.empty, trace = []\<rparr>)
                     ''sengol_incidents'' 2\<rparr> = Some (Inr st) \<and>
          int (length (scroll_requests (trace (env st)))) = 2 \<and>
          sum_list (map length
            (returned_batches (offset_store sample_points 2 DOT) (trace (env st)))) = 3 \<and>
          migrated_count st = 3)"
proof -
  have h1: "(1::int) \<le> 2" by simp
  have h2: "sample_source ''sengol_incidents'' = Some (offset_store sample_points 2 DOT)"
    by (simp add: sample_source_def)
  have n: "length sample_points = 3"
    by (simp add: sample_points_def)
  have c: "\<lceil>real 3 / real_of_int 2\<rceil> = 2"
    by (simp add: ceiling_eq_iff)
  show ?thesis
    using h1 h2 pagination_exhaustion [where src = sample_source and tgt = Map.empty, OF h1 h2]
    by (simp add: n c)
qed

section \<open>Unfolding a run\<close>

lemmas run_defs =
  migrate_collection_def source_get_collection_def ensure_collection_exists_def
  target_get_collection_def emit_def target_recreate_collection_def source_scroll_def
  target_upsert_def upsert_all_def target_points_count_def offset_store_def offset_scan_def
  run_trace_def is_create_def is_progress_def is_upsert_def Let_def

section \<open>A missing source collection (C7)\<close>

text \<open>
  C7. If the configured collection is not among the source's collections, \<open>main\<close> ends
  with exit code 1 before any scroll, create or upsert call: the destination is left as
  it was and no result is produced. Once both clients are connected, all the run does
  is list the source's collections and print that the collection was not found.
\<close>

theorem source_not_found_fails_fast:
  assumes "configured_collection e \<notin> dom src"
  shows "\<exists>out. main e clk src tgt = Some out \<and>
           exit_code out = 1 \<and>
           migration_result out = None \<and>
           target (final out) = tgt \<and>
           scroll_requests (trace (final out)) = [] \<and>
           filter is_upsert (trace (final out)) = [] \<and>
           filter is_create (trace (final out)) = [] \<and>
           (get_source_qdrant_client e = Inr () \<and> get_target_qdrant_client e = Inr () \<longrightarrow>
              trace (final out) =
                [SourceGetCollections, PrintNotFound (configured_collection e)])"
  using assms
  by (auto simp: main_def Let_def except_exit_def emit_def scroll_requests_def
        scroll_request_def is_upsert_def is_create_def split: sum.splits)

theorem source_not_found_fails_fast_witness:
  "configured_collection (sample_environ\<lparr>COLLECTION_NAME := Some ''missing''\<rparr>) \<notin> dom sample_source \<and>
   get_source_qdrant_client (sample_environ\<lparr>COLLECTION_NAME := Some ''missing''\<rparr>) = Inr () \<and>
   get_target_qdrant_client (sample_environ\<lparr>COLLECTION_NAME := Some ''missing''\<rparr>) = Inr () \<and>
   (\<exists>out. main (sample_environ\<lparr>COLLECTION_NAME := Some ''missing''\<rparr>) sample_clock
             sample_source Map.empty = Some out \<and>
          exit_code out = 1 \<and>
          trace (final out) = [SourceGetCollections, PrintNotFound ''missing''])"
proof -
  let ?e = "sample_environ\<lparr>COLLECTION_NAME := Some ''missing''\<rparr>"
  have n: "configured_collection ?e = ''missing''"
    by (simp add: configured_collection_def)
  have h: "configured_collection ?e \<notin> dom sample_source"
    by (simp add: n sample_source_def)
  have s: "get_source_qdrant_client ?e = Inr ()"
    by (simp add: get_source_qdrant_client_def sample_environ_def)
  have t: "get_target_qdrant_client ?e = Inr ()"
    by (simp add: get_target_qdrant_client_def sample_environ_def unset_def)
  show ?thesis
    using h s t source_not_found_fails_fast [OF h, of sample_clock Map.empty]
    by (auto simp: n)
qed

section \<open>The record transformer (C8)\<close>

lemma py_get_obj [simp]: "py_get (JObj kvs) key dflt = Inr (field_or kvs key dflt)"
  by (simp add: py_get_def field_or_def)

lemma py_bind_Inr [simp]: "py_bind (Inr v) f = f v"
  by (simp add: py_bind_def)

lemma py_bind_Inl [simp]: "py_bind (Inl e) f = Inl e"
  by (simp add: py_bind_def)




section \<open>The scan is driven by the count (C4)\<close>

lemma count_driven_Nil: "total_points \<le> start \<Longrightarrow> count_driven c start b total_points []"
  by (simp add: count_driven_def)

lemma count_driven_single:
  assumes "start < total_points"
    and "fst (scroll_page c start (min b (total_points - start))) = []"
  shows "count_driven c start b total_points [(start, min b (total_points - start))]"
  using assms by (simp add: count_driven_def planned_request_def planned_page_def)

lemma count_driven_Cons:
  assumes b: "1 \<le> b" and lt: "start < total_points"
    and limit: "limit = min b (total_points - start)"
    and page: "fst (scroll_page c start limit) \<noteq> []"
    and rest: "count_driven c (start + limit) b total_points reqs"
  shows "count_driven c start b total_points ((start, limit) # reqs)"
proof -
  have full: "limit = b" if "reqs \<noteq> []"
  proof (rule ccontr)
    assume "limit \<noteq> b"
    then have "start + limit = total_points" using limit by (simp add: min_def split: if_splits)
    moreover have "0 < length reqs"
      using that by simp
    then have "start + limit + int 0 * b < total_points"
      using rest unfolding count_driven_def by blast
    ultimately show False by simp
  qed
  have shift: "planned_request (start + limit) b total_points j =
               planned_request start b total_points (Suc j)" if "reqs \<noteq> []" for j
    using full [OF that] by (simp add: planned_request_def algebra_simps)
  have shiftp: "planned_page c (start + limit) b total_points j =
               planned_page c start b total_points (Suc j)" if "reqs \<noteq> []" for j
    using shift [OF that] by (simp add: planned_page_def)
  have p0: "planned_request start b total_points 0 = (start, limit)"
    by (simp add: planned_request_def limit)
  have a: "((start, limit) # reqs) ! i = planned_request start b total_points i \<and>
           start + int i * b < total_points" if "i < length ((start, limit) # reqs)" for i
  proof (cases i)
    case 0
    then show ?thesis using p0 lt by simp
  next
    case (Suc j)
    then have j: "j < length reqs" using that by simp
    then have ne: "reqs \<noteq> []" by auto
    have "reqs ! j = planned_request (start + limit) b total_points j \<and>
          start + limit + int j * b < total_points"
      using rest j by (simp add: count_driven_def)
    then show ?thesis
      using Suc shift [OF ne] full [OF ne] by (simp add: algebra_simps)
  qed
  have c: "planned_page c start b total_points i \<noteq> []"
    if "Suc i < length ((start, limit) # reqs)" for i
  proof (cases i)
    case 0
    then show ?thesis using page p0 by (simp add: planned_page_def)
  next
    case (Suc j)
    then have j: "Suc j < length reqs" using that by simp
    then have ne: "reqs \<noteq> []" by auto
    have "planned_page c (start + limit) b total_points j \<noteq> []"
      using rest j by (simp add: count_driven_def)
    then show ?thesis using Suc shiftp [OF ne] by simp
  qed
  have d: "total_points \<le> start + int (length ((start, limit) # reqs)) * b \<or>
           ((start, limit) # reqs \<noteq> [] \<and>
            planned_page c start b total_points (length ((start, limit) # reqs) - 1) = [])"
  proof (cases "reqs = []")
    case True
    then have "total_points \<le> start + limit"
      using rest by (simp add: count_driven_def)
    moreover have "limit \<le> b" using limit by simp
    ultimately show ?thesis using True by simp
  next
    case False
    then obtain n where n: "length reqs = Suc n" by (cases reqs) auto
    from rest have "total_points \<le> start + limit + int (length reqs) * b \<or>
        planned_page c (start + limit) b total_points (length reqs - 1) = []"
      by (auto simp: count_driven_def)
    then show ?thesis
      using full [OF False] shiftp [OF False, of n] n
      by (auto simp: algebra_simps)
  qed
  show ?thesis
    unfolding count_driven_def using a c d by blast
qed

lemma scan_loop_count_driven:
  assumes b: "1 \<le> batch_size" and src: "src name = Some c"
  shows "target (env st) name = Some tc \<Longrightarrow>
         \<exists>st' new tc'.
           scan_loop src name batch_size total_points st = Some (Inr st') \<and>
           trace (env st') = trace (env st) @ new \<and>
           target (env st') name = Some tc' \<and>
           (\<forall>n. n \<noteq> name \<longrightarrow> target (env st') n = target (env st) n) \<and>
           filter is_create new = [] \<and>
           count_driven c (offset st) batch_size total_points (scroll_requests new)"
proof (induction "nat (total_points - offset st)" arbitrary: st tc rule: less_induct)
  case less
  show ?case
  proof (cases "offset st < total_points")
    case False
    have "scan_loop src name batch_size total_points st = Some (Inr st)"
      using False by (rule scan_loop_stop)
    then show ?thesis
      using False less.prems
      by (intro exI [of _ st] exI [of _ "[]"] exI [of _ tc]) (simp add: count_driven_Nil)
  next
    case True
    define limit where "limit = min batch_size (total_points - offset st)"
    define page where "page = fst (scroll_page c (offset st) limit)"
    have pos: "1 \<le> limit" using True b by (simp add: limit_def)
    show ?thesis
    proof (cases "page = []")
      case True
      have "scan_loop src name batch_size total_points st =
              Some (Inr (st\<lparr>env := emit [SourceScroll name (offset st) limit] (env st)\<rparr>))"
        unfolding limit_def
        by (rule scan_loop_empty_page [where c = c])
           (use \<open>offset st < total_points\<close> src True page_def limit_def in auto)
      moreover have "count_driven c (offset st) batch_size total_points [(offset st, limit)]"
        unfolding limit_def
        by (rule count_driven_single)
           (use \<open>offset st < total_points\<close> True page_def limit_def in auto)
      ultimately show ?thesis
        using less.prems
        by (intro exI [of _ "st\<lparr>env := emit [SourceScroll name (offset st) limit] (env st)\<rparr>"]
                  exI [of _ "[SourceScroll name (offset st) limit]"] exI [of _ tc])
           (simp add: emit_def is_create_def)
    next
      case False
      define tc1 where "tc1 = tc\<lparr>target_points := upsert_all page (target_points tc)\<rparr>"
      define st1 where "st1 =
        \<lparr>offset = offset st + limit,
         migrated_count = migrated_count st + int (length page),
         env = (env st)\<lparr>target := (target (env st))(name \<mapsto> tc1),
                       trace := trace (env st) @
                         [SourceScroll name (offset st) limit,
                          TargetUpsert name page,
                          PrintProgress (migrated_count st + int (length page)) total_points]\<rparr>\<rparr>"
      have step: "scan_loop src name batch_size total_points st =
                    scan_loop src name batch_size total_points st1"
        unfolding st1_def tc1_def
        by (rule scan_loop_round [where c = c])
           (use \<open>offset st < total_points\<close> src less.prems limit_def page_def False in blast)+
      have o1: "offset st1 = offset st + limit" by (simp add: st1_def)
      have dec: "nat (total_points - offset st1) < nat (total_points - offset st)"
        using True pos by (simp add: o1)
      have r3: "target (env st1) name = Some tc1" by (simp add: st1_def)
      from less.hyps [OF dec r3]
      obtain st' new tc' where
        run: "scan_loop src name batch_size total_points st1 = Some (Inr st')"
        and tr: "trace (env st') = trace (env st1) @ new"
        and tg: "target (env st') name = Some tc'"
        and oth: "\<forall>n. n \<noteq> name \<longrightarrow> target (env st') n = target (env st1) n"
        and nc: "filter is_create new = []"
        and cd: "count_driven c (offset st1) batch_size total_points (scroll_requests new)"
        by blast
      let ?new = "[SourceScroll name (offset st) limit, TargetUpsert name page,
                   PrintProgress (migrated_count st + int (length page)) total_points] @ new"
      have g1: "scan_loop src name batch_size total_points st = Some (Inr st')"
        using step run by simp
      have g2: "trace (env st') = trace (env st) @ ?new"
        using tr by (simp add: st1_def)
      have g4: "\<forall>n. n \<noteq> name \<longrightarrow> target (env st') n = target (env st) n"
        using oth by (simp add: st1_def)
      have "count_driven c (offset st) batch_size total_points
              ((offset st, limit) # scroll_requests new)"
        by (rule count_driven_Cons [OF b True limit_def])
           (use False page_def cd o1 in auto)
      then have g5: "count_driven c (offset st) batch_size total_points (scroll_requests ?new)"
        by simp
      have g6: "filter is_create ?new = []"
        using nc by (simp add: is_create_def)
      show ?thesis
        using g1 g2 tg g4 g5 g6 by blast
    qed
  qed
qed

text \<open>
  C4, as the claim states it, fails: a store whose count is stale (it reports two points
  and holds one) answers the first scroll with a page whose next offset is null, and the
  run scrolls a second time.
\<close>

theorem scan_ignores_next_offset_counterexample:
  "scroll_page stale_collection 0 1 = (take 1 sample_points, None) \<and>
   map_option (scroll_requests \<circ> run_trace)
     (migrate_collection sample_clock stale_source \<lparr>target = Map.empty, trace = []\<rparr>
        ''sengol_incidents'' 1) = Some [(0, 1), (1, 1)]"
  by (simp add: run_defs stale_source_def stale_collection_def sample_points_def
        scan_loop.simps scroll_requests_def scroll_request_def)

text \<open>
  C4, amended. For a batch size of at least one and whatever the source answers, the
  scan of a migration run is driven by the offset and the count taken at the start: it
  fetches pages while \<open>offset < total_points\<close>, asking at the current offset for
  \<open>min(batch_size, total_points - offset)\<close> records, and stops at, and only at, the
  first page that is empty or after which the offset has reached \<open>total_points\<close>. An
  empty page ends the scan whatever its next offset; the next offset is never read.
\<close>

theorem scan_is_count_driven:
  assumes "1 \<le> batch_size" and "src name = Some c"
  shows "\<exists>st. scan_loop src name batch_size (points_count c)
                \<lparr>offset = 0, migrated_count = 0,
                 env = ensure_collection_exists
                         (emit [SourceGetCollection name] \<lparr>target = tgt, trace = []\<rparr>)
                         name (vectors_size c)\<rparr> = Some (Inr st) \<and>
              count_driven c 0 batch_size (points_count c) (scroll_requests (trace (env st)))"
proof -
  let ?w = "ensure_collection_exists
              (emit [SourceGetCollection name] \<lparr>target = tgt, trace = []\<rparr>) name (vectors_size c)"
  let ?st0 = "\<lparr>offset = 0, migrated_count = 0, env = ?w\<rparr>"
  obtain tc where tc: "target (env ?st0) name = Some tc"
    using ensure_collection_exists_target [of _ name "vectors_size c"] by auto
  from scan_loop_count_driven
         [where src = src and name = name and total_points = "points_count c", OF assms tc]
  obtain st' new where
    run: "scan_loop src name batch_size (points_count c) ?st0 = Some (Inr st')"
    and tr: "trace (env st') = trace ?w @ new"
    and cd: "count_driven c 0 batch_size (points_count c) (scroll_requests new)"
    by fastforce
  have "scroll_requests (trace (env st')) = scroll_requests new"
    by (simp add: tr emit_def)
  with run cd show ?thesis by auto
qed

theorem scan_is_count_driven_witness:
  "(1::int) \<le> 1 \<and> stale_source ''sengol_incidents'' = Some stale_collection \<and>
   (\<exists>st. scan_loop stale_source ''sengol_incidents'' 1 (points_count stale_collection)
            \<lparr>offset = 0, migrated_count = 0,
             env = ensure_collection_exists
                     (emit [SourceGetCollection ''sengol_incidents'']
                        \<lparr>target = Map.empty, trace = []\<rparr>)
                     ''sengol_incidents'' (vectors_size stale_collection)\<rparr> = Some (Inr st) \<and>
          count_driven stale_collection 0 1 (points_count stale_collection)
            (scroll_requests (trace (env st))))"
proof -
  have h1: "(1::int) \<le> 1" by simp
  have h2: "stale_source ''sengol_incidents'' = Some stale_collection"
    by (simp add: stale_source_def)
  show ?thesis
    using h1 h2 scan_is_count_driven [where src = stale_source and tgt = Map.empty, OF h1 h2]
    by simp
qed

section \<open>An empty source collection (C9)\<close>

lemma ensure_collection_exists_quiet [simp]:
  "filter is_upsert (trace (ensure_collection_exists w name vsize)) = filter is_upsert (trace w)"
  "filter is_progress (trace (ensure_collection_exists w name vsize)) = filter is_progress (trace w)"
  by (simp_all add: ensure_collection_exists_def target_get_collection_def emit_def
        is_upsert_def is_progress_def split: option.splits)

text \<open>
  C9, as the claim states it, fails: with a total of zero the run prints no progress line
  at all, so no percentage, 100 or other, is reported.
\<close>

theorem empty_collection_reports_nothing_counterexample:
  "map_option (filter is_progress \<circ> run_trace)
     (migrate_collection sample_clock empty_source \<lparr>target = Map.empty, trace = []\<rparr>
        ''sengol_incidents'' 100) = Some []"
  by (simp add: run_defs empty_source_def scan_loop.simps)

text \<open>
  C9, amended. When the source collection's count is 0, the run issues no scroll call
  and no upsert, whatever the batch size: after the destination collection has been
  ensured it goes straight to verification (the count query on the destination, with
  the mismatch warning if the destination is not empty). No progress line is printed,
  so no completion percentage is reported.
\<close>

theorem empty_collection_skips_scan:
  assumes "src name = Some c" and "points_count c = 0"
  shows "\<exists>d w tc.
           migrate_collection clk src \<lparr>target = tgt, trace = []\<rparr> name batch_size =
             Some (Inr (d, w)) \<and>
           target w name = Some tc \<and>
           trace w =
             trace (ensure_collection_exists
                      (emit [SourceGetCollection name] \<lparr>target = tgt, trace = []\<rparr>)
                      name (vectors_size c)) @
             TargetGetCollection name #
             (if target_points_count tc \<noteq> 0
              then [PrintMismatchWarning 0 (target_points_count tc)] else []) \<and>
           scroll_requests (trace w) = [] \<and>
           filter is_upsert (trace w) = [] \<and>
           filter is_progress (trace w) = []"
proof -
  let ?w2 = "ensure_collection_exists
               (emit [SourceGetCollection name] \<lparr>target = tgt, trace = []\<rparr>)
               name (vectors_size c)"
  obtain tc where tc: "target ?w2 name = Some tc"
    using ensure_collection_exists_target by blast
  have loop: "scan_loop src name batch_size 0 \<lparr>offset = 0, migrated_count = 0, env = ?w2\<rparr> =
                Some (Inr \<lparr>offset = 0, migrated_count = 0, env = ?w2\<rparr>)"
    by (rule scan_loop_stop) simp
  show ?thesis
    using assms tc loop
    by (simp add: migrate_collection_def source_get_collection_def Let_def
          target_get_collection_def emit_def is_upsert_def is_progress_def)
qed

theorem empty_collection_skips_scan_witness:
  "empty_source ''sengol_incidents'' = Some (offset_store [] 2 DOT) \<and>
   points_count (offset_store [] 2 DOT) = 0 \<and>
   (\<exists>d w tc.
      migrate_collection sample_clock empty_source \<lparr>target = Map.empty, trace = []\<rparr>
        ''sengol_incidents'' 100 = Some (Inr (d, w)) \<and>
      target w ''sengol_incidents'' = Some tc \<and>
      scroll_requests (trace w) = [] \<and>
      filter is_upsert (trace w) = [] \<and>
      filter is_progress (trace w) = [])"
proof -
  have h1: "empty_source ''sengol_incidents'' = Some (offset_store [] 2 DOT)"
    by (simp add: empty_source_def)
  have h2: "points_count (offset_store [] 2 DOT) = 0"
    by (simp add: offset_store_def)
  show ?thesis
    using h1 h2
      empty_collection_skips_scan
        [where src = empty_source and tgt = Map.empty and clk = sample_clock
           and batch_size = 100, OF h1 h2]
    by blast
qed

section \<open>A count mismatch at verification (C6)\<close>

lemma migrate_collection_completes:
  assumes b: "1 \<le> batch_size" and src: "src name = Some c"
  shows "\<exists>w tc.
           migrate_collection clk src w0 name batch_size =
             Some (Inr (JObj [(''metadata'', JObj
                        [(''collection'', JStr name),
                         (''migrated_at'', JStr (utcnow_isoformat clk @ ''Z'')),
                         (''source_points'', JInt (points_count c)),
                         (''target_points'', JInt (target_points_count tc)),
                         (''vector_size'', JInt (vectors_size c)),
                         (''migration_duration_seconds'', JFloat (duration_seconds clk))])],
                   w)) \<and>
           target w name = Some tc \<and>
           (target_points_count tc \<noteq> points_count c \<longrightarrow>
              PrintMismatchWarning (points_count c) (target_points_count tc) \<in> set (trace w))"
proof -
  let ?w2 = "ensure_collection_exists (emit [SourceGetCollection name] w0) name (vectors_size c)"
  let ?st0 = "\<lparr>offset = 0, migrated_count = 0, env = ?w2\<rparr>"
  obtain tc0 where tc0: "target (env ?st0) name = Some tc0"
    using ensure_collection_exists_target [of _ name "vectors_size c"] by auto
  from scan_loop_count_driven
         [where src = src and name = name and total_points = "points_count c", OF b src tc0]
  obtain st' new tc where
    run: "scan_loop src name batch_size (points_count c) ?st0 = Some (Inr st')"
    and tr: "trace (env st') = trace ?w2 @ new"
    and tg: "target (env st') name = Some tc"
    by fastforce
  show ?thesis
    using src run tg
    apply (intro exI [of _ "if target_points_count tc \<noteq> points_count c
             then emit [PrintMismatchWarning (points_count c) (target_points_count tc)]
                    (emit [TargetGetCollection name] (env st'))
             else emit [TargetGetCollection name] (env st')"] exI [of _ tc])
    apply (simp add: migrate_collection_def source_get_collection_def Let_def
          target_get_collection_def emit_def)
    done
qed

lemmas main_defs =
  main_def configured_collection_def get_source_qdrant_client_def get_target_qdrant_client_def
  unset_def except_exit_def metadata_field_def json_field_def sample_environ_def

text \<open>
  C6, as the claim states it, fails: a run into a destination that already holds a
  foreign point ends with exit code 0 and a result that carries the two counts, 3 and 4,
  and no \<open>mismatch\<close> entry.
\<close>

theorem mismatch_flag_absent_counterexample:
  "map_option exit_code (main sample_environ sample_clock sample_source occupied_target) = Some 0 \<and>
   Option.bind (main sample_environ sample_clock sample_source occupied_target)
     (metadata_field ''source_points'') = Some (JInt 3) \<and>
   Option.bind (main sample_environ sample_clock sample_source occupied_target)
     (metadata_field ''target_points'') = Some (JInt 4) \<and>
   Option.bind (main sample_environ sample_clock sample_source occupied_target)
     (metadata_field ''mismatch'') = None"
  by (simp add: main_defs run_defs sample_source_def sample_points_def occupied_target_def
        scan_loop.simps)

text \<open>
  C6, amended. Once both clients are connected and the collection exists in the source,
  \<open>main\<close> completes with exit code 0 whatever the two counts are. The result carries
  the source count taken at the start and the destination count found at verification,
  and no \<open>mismatch\<close> entry; when the two counts differ, the mismatch warning with both
  counts has been printed.
\<close>

theorem count_mismatch_is_not_fatal:
  assumes "get_source_qdrant_client e = Inr ()"
    and "get_target_qdrant_client e = Inr ()"
    and "src (configured_collection e) = Some c"
  shows "\<exists>out tc.
           main e clk src tgt = Some out \<and>
           exit_code out = 0 \<and>
           target (final out) (configured_collection e) = Some tc \<and>
           metadata_field ''source_points'' out = Some (JInt (points_count c)) \<and>
           metadata_field ''target_points'' out = Some (JInt (target_points_count tc)) \<and>
           metadata_field ''mismatch'' out = None \<and>
           (target_points_count tc \<noteq> points_count c \<longrightarrow>
              PrintMismatchWarning (points_count c) (target_points_count tc)
                \<in> set (trace (final out)))"
proof -
  let ?name = "configured_collection e"
  let ?w2 = "emit [TargetGetCollections] (emit [SourceGetCollections] \<lparr>target = tgt, trace = []\<rparr>)"
  have b: "(1::int) \<le> 100" by simp
  from migrate_collection_completes
         [where src = src and name = ?name and clk = clk and ?w0.0 = ?w2, OF b assms(3)]
  obtain d w tc where
    run: "migrate_collection clk src ?w2 ?name 100 = Some (Inr (d, w))"
    and d: "d = JObj [(''metadata'', JObj
                        [(''collection'', JStr ?name),
                         (''migrated_at'', JStr (utcnow_isoformat clk @ ''Z'')),
                         (''source_points'', JInt (points_count c)),
                         (''target_points'', JInt (target_points_count tc)),
                         (''vector_size'', JInt (vectors_size c)),
                         (''migration_duration_seconds'', JFloat (duration_seconds clk))])]"
    and tg: "target w ?name = Some tc"
    and warn: "target_points_count tc \<noteq> points_count c \<longrightarrow>
                 PrintMismatchWarning (points_count c) (target_points_count tc) \<in> set (trace w)"
    by blast
  have dom: "?name \<in> dom src" using assms(3) by auto
  show ?thesis
    using assms(1,2) dom run tg warn
    by (intro exI [of _ "\<lparr>exit_code = 0, final = emit [PrintCompleted] w,
                            migration_result = Some d\<rparr>"] exI [of _ tc])
       (simp add: main_def Let_def d metadata_field_def json_field_def emit_def)
qed

theorem count_mismatch_is_not_fatal_witness:
  "get_source_qdrant_client sample_environ = Inr () \<and>
   get_target_qdrant_client sample_environ = Inr () \<and>
   sample_source (configured_collection sample_environ) = Some (offset_store sample_points 2 DOT) \<and>
   (\<exists>out. main sample_environ sample_clock sample_source occupied_target = Some out \<and>
          exit_code out = 0 \<and>
          metadata_field ''source_points'' out = Some (JInt 3) \<and>
          metadata_field ''target_points'' out = Some (JInt 4) \<and>
          metadata_field ''mismatch'' out = None \<and>
          PrintMismatchWarning 3 4 \<in> set (trace (final out)))"
proof -
  have h1: "get_source_qdrant_client sample_environ = Inr ()"
    by (simp add: get_source_qdrant_client_def sample_environ_def)
  have h2: "get_target_qdrant_client sample_environ = Inr ()"
    by (simp add: get_target_qdrant_client_def sample_environ_def unset_def)
  have h3: "sample_source (configured_collection sample_environ) =
              Some (offset_store sample_points 2 DOT)"
    by (simp add: configured_collection_def sample_environ_def sample_source_def)
  have n: "points_count (offset_store sample_points 2 DOT) = 3"
    by (simp add: offset_store_def sample_points_def)
  have t: "Option.bind (main sample_environ sample_clock sample_source occupied_target)
             (metadata_field ''target_points'') = Some (JInt 4)"
    by (simp add: main_defs run_defs sample_source_def sample_points_def occupied_target_def
          scan_loop.simps)
  from count_mismatch_is_not_fatal
         [where src = sample_source and tgt = occupied_target and clk = sample_clock, OF h1 h2 h3]
  obtain out tc where
    o: "main sample_environ sample_clock sample_source occupied_target = Some out"
       "exit_code out = 0"
       "metadata_field ''source_points'' out = Some (JInt 3)"
       "metadata_field ''target_points'' out = Some (JInt (target_points_count tc))"
       "metadata_field ''mismatch'' out = None"
       "target_points_count tc \<noteq> 3 \<longrightarrow>
          PrintMismatchWarning 3 (target_points_count tc) \<in> set (trace (final out))"
    unfolding n by blast
  from t o(1,4) have "target_points_count tc = 4" by simp
  with o h1 h2 h3 show ?thesis by auto
qed

section \<open>Idempotent replay (C2)\<close>

lemma upsert_point_new:
  "point_id p \<notin> point_id ` set s \<Longrightarrow> upsert_point p s = s @ [p]"
  by (induction s) auto

lemma upsert_point_same:
  "p \<in> set s \<Longrightarrow> distinct (map point_id s) \<Longrightarrow> upsert_point p s = s"
  by (induction s) (auto simp: image_iff)

lemma upsert_all_new:
  "distinct (map point_id (s @ ps)) \<Longrightarrow> upsert_all ps s = s @ ps"
proof (induction ps arbitrary: s)
  case Nil
  then show ?case by (simp add: upsert_all_def)
next
  case (Cons p ps)
  have "point_id p \<notin> point_id ` set s"
    using Cons.prems by auto
  then have "upsert_point p s = s @ [p]"
    by (rule upsert_point_new)
  moreover have "upsert_all ps (s @ [p]) = (s @ [p]) @ ps"
    using Cons.prems by (intro Cons.IH) simp
  ultimately show ?case
    by (simp add: upsert_all_def)
qed

lemma upsert_all_same:
  "set ps \<subseteq> set s \<Longrightarrow> distinct (map point_id s) \<Longrightarrow> upsert_all ps s = s"
  by (induction ps) (simp_all add: upsert_all_def upsert_point_same)

lemma migrate_collection_offset_store:
  assumes b: "1 \<le> batch_size"
    and src: "src name = Some (offset_store recs vsize metric)"
    and tc0: "target (ensure_collection_exists (emit [SourceGetCollection name] w0) name vsize) name
                = Some tc0"
  shows "\<exists>d w.
           migrate_collection clk src w0 name batch_size = Some (Inr (d, w)) \<and>
           target w name =
             Some (tc0\<lparr>target_points := upsert_all recs (target_points tc0)\<rparr>) \<and>
           Option.bind (json_field ''metadata'' d) (json_field ''source_points'') =
             Some (JInt (int (length recs))) \<and>
           Option.bind (json_field ''metadata'' d) (json_field ''target_points'') =
             Some (JInt (int (length (upsert_all recs (target_points tc0)))))"
proof -
  let ?w2 = "ensure_collection_exists (emit [SourceGetCollection name] w0) name vsize"
  let ?st0 = "\<lparr>offset = 0, migrated_count = 0, env = ?w2\<rparr>"
  have t0: "target (env ?st0) name = Some tc0"
    using tc0 by simp
  from scan_loop_offset_store [where src = src and name = name, OF b src _ _ t0]
  obtain st' where
    run: "scan_loop src name batch_size (int (length recs)) ?st0 = Some (Inr st')"
    and tg: "target (env st') =
               (target ?w2)(name \<mapsto> tc0\<lparr>target_points := upsert_all recs (target_points tc0)\<rparr>)"
    by auto
  show ?thesis
    using src run tg
    by (simp add: migrate_collection_def source_get_collection_def Let_def offset_store_def
          target_get_collection_def emit_def json_field_def target_points_count_def)
qed

text \<open>
  C2. Take a source collection of N records with pairwise distinct ids, paged by offset,
  and a destination that lacks the collection or holds it empty. A full migration makes
  the destination hold exactly the N records, and a second full migration from offset 0
  into that destination leaves it holding exactly the same N records: each replayed
  record overwrites the stored one with its id. The count found at verification is N
  both times.
\<close>

theorem idempotent_replay:
  assumes "1 \<le> batch_size"
    and "src name = Some (offset_store recs vsize metric)"
    and "distinct (map point_id recs)"
    and "case tgt name of None \<Rightarrow> True | Some tc \<Rightarrow> target_points tc = []"
  shows "\<exists>d1 w1 tc1 d2 w2 tc2.
           migrate_collection clk_first src \<lparr>target = tgt, trace = []\<rparr> name batch_size =
             Some (Inr (d1, w1)) \<and>
           target w1 name = Some tc1 \<and>
           target_points tc1 = recs \<and>
           target_points_count tc1 = int (length recs) \<and>
           Option.bind (json_field ''metadata'' d1) (json_field ''target_points'') =
             Some (JInt (int (length recs))) \<and>
           migrate_collection clk_second src \<lparr>target = target w1, trace = []\<rparr> name batch_size =
             Some (Inr (d2, w2)) \<and>
           target w2 name = Some tc2 \<and>
           target_points tc2 = recs \<and>
           target_points_count tc2 = int (length recs) \<and>
           Option.bind (json_field ''metadata'' d2) (json_field ''target_points'') =
             Some (JInt (int (length recs)))"
proof -
  let ?w0 = "\<lparr>target = tgt, trace = []\<rparr>"
  obtain tc0 where
    e1: "target (ensure_collection_exists (emit [SourceGetCollection name] ?w0) name vsize) name
           = Some tc0"
    and p0: "target_points tc0 = []"
    using assms(4)
    by (auto simp: ensure_collection_exists_def target_get_collection_def emit_def
          target_recreate_collection_def split: option.splits)
  have first: "upsert_all recs (target_points tc0) = recs"
    using upsert_all_new [of "[]" recs] assms(3) by (simp add: p0)
  from migrate_collection_offset_store
         [where src = src and name = name and clk = clk_first, OF assms(1,2) e1]
  obtain d1 w1 where
    r1: "migrate_collection clk_first src ?w0 name batch_size = Some (Inr (d1, w1))"
    and t1: "target w1 name = Some (tc0\<lparr>target_points := recs\<rparr>)"
    and j1: "Option.bind (json_field ''metadata'' d1) (json_field ''target_points'') =
               Some (JInt (int (length recs)))"
    unfolding first by blast
  let ?tc1 = "tc0\<lparr>target_points := recs\<rparr>"
  let ?w1 = "\<lparr>target = target w1, trace = []\<rparr>"
  have e2: "target (ensure_collection_exists (emit [SourceGetCollection name] ?w1) name vsize) name
              = Some ?tc1"
    using t1
    by (simp add: ensure_collection_exists_def target_get_collection_def emit_def)
  have second: "upsert_all recs (target_points ?tc1) = recs"
    using upsert_all_same [of recs recs] assms(3) by simp
  from migrate_collection_offset_store
         [where src = src and name = name and clk = clk_second, OF assms(1,2) e2]
  obtain d2 w2 where
    r2: "migrate_collection clk_second src ?w1 name batch_size = Some (Inr (d2, w2))"
    and t2: "target w2 name = Some (?tc1\<lparr>target_points := recs\<rparr>)"
    and j2: "Option.bind (json_field ''metadata'' d2) (json_field ''target_points'') =
               Some (JInt (int (length recs)))"
    unfolding second by blast
  show ?thesis
    using r1 t1 j1 r2 t2 j2
    by (intro exI [of _ d1] exI [of _ w1] exI [of _ ?tc1] exI [of _ d2] exI [of _ w2]
          exI [of _ "?tc1\<lparr>target_points := recs\<rparr>"])
       (simp add: target_points_count_def)
qed

theorem idempotent_replay_witness:
  "(1::int) \<le> 2 \<and>
   sample_source ''sengol_incidents'' = Some (offset_store sample_points 2 DOT) \<and>
   distinct (map point_id sample_points) \<and>
   (\<exists>d1 w1 tc1 d2 w2 tc2.
      migrate_collection sample_clock sample_source \<lparr>target = Map.empty, trace = []\<rparr>
        ''sengol_incidents'' 2 = Some (Inr (d1, w1)) \<and>
      target w1 ''sengol_incidents'' = Some tc1 \<and>
      target_points_count tc1 = 3 \<and>
      migrate_collection sample_clock sample_source \<lparr>target = target w1, trace = []\<rparr>
        ''sengol_incidents'' 2 = Some (Inr (d2, w2)) \<and>
      target w2 ''sengol_incidents'' = Some tc2 \<and>
      target_points_count tc2 = 3)"
proof -
  have h1: "(1::int) \<le> 2" by simp
  have h2: "sample_source ''sengol_incidents'' = Some (offset_store sample_points 2 DOT)"
    by (simp add: sample_source_def)
  have h3: "distinct (map point_id sample_points)"
    by (simp add: sample_points_def)
  have h4: "case Map.empty ''sengol_incidents'' of None \<Rightarrow> True
            | Some tc \<Rightarrow> target_points tc = []"
    by simp
  have n: "int (length sample_points) = 3"
    by (simp add: sample_points_def)
  show ?thesis
    using h1 h2 h3
      idempotent_replay
        [where src = sample_source and clk_first = sample_clock and clk_second = sample_clock,
         OF h1 h2 h3 h4]
    unfolding n by blast
qed

section \<open>Schema creation (C3)\<close>

text \<open>
  What holds of the ensure-schema step: a run into a destination that lacks the
  collection issues exactly one create call, with the source's vector size, before
  anything else is written; a run into a destination that has the collection issues
  none. The metric of that call is always \<open>COSINE\<close>.
\<close>

lemma create_once_before_upserts:
  assumes b: "1 \<le> batch_size" and src: "src name = Some c"
  shows "\<exists>d w.
           migrate_collection clk src \<lparr>target = tgt, trace = []\<rparr> name batch_size =
             Some (Inr (d, w)) \<and>
           (tgt name = None \<longrightarrow>
              (\<exists>rest. trace w =
                 [SourceGetCollection name, TargetGetCollection name,
                  TargetRecreateCollection name (vectors_size c) COSINE] @ rest \<and>
                 filter is_create rest = [])) \<and>
           (tgt name \<noteq> None \<longrightarrow> filter is_create (trace w) = [])"
proof -
  let ?w1 = "emit [SourceGetCollection name] \<lparr>target = tgt, trace = []\<rparr>"
  let ?w2 = "ensure_collection_exists ?w1 name (vectors_size c)"
  let ?st0 = "\<lparr>offset = 0, migrated_count = 0, env = ?w2\<rparr>"
  obtain tc0 where tc0: "target (env ?st0) name = Some tc0"
    using ensure_collection_exists_target [of _ name "vectors_size c"] by auto
  from scan_loop_count_driven
         [where src = src and name = name and total_points = "points_count c", OF b src tc0]
  obtain st' new tc where
    run: "scan_loop src name batch_size (points_count c) ?st0 = Some (Inr st')"
    and tr: "trace (env st') = trace ?w2 @ new"
    and tg: "target (env st') name = Some tc"
    and nc: "filter is_create new = []"
    by fastforce
  have absent: "trace ?w2 = [SourceGetCollection name, TargetGetCollection name,
                  TargetRecreateCollection name (vectors_size c) COSINE]" if "tgt name = None"
    using that
    by (simp add: ensure_collection_exists_def target_get_collection_def emit_def)
  have present: "trace ?w2 = [SourceGetCollection name, TargetGetCollection name]"
    if "tgt name \<noteq> None"
    using that
    by (auto simp: ensure_collection_exists_def target_get_collection_def emit_def)
  show ?thesis
    using src run tg tr nc absent present
    by (auto simp: migrate_collection_def source_get_collection_def Let_def
          target_get_collection_def emit_def is_create_def)
qed

text \<open>
  C3. Migrating a source collection whose metric is \<open>DOT\<close> into a destination that
  lacks the collection issues one create call, and that call carries the source's vector
  size with the metric \<open>COSINE\<close>, not the source's metric.
\<close>

theorem create_ignores_source_metric:
  "map_option (filter is_create \<circ> run_trace)
     (migrate_collection sample_clock sample_source \<lparr>target = Map.empty, trace = []\<rparr>
        ''sengol_incidents'' 100) =
     Some [TargetRecreateCollection ''sengol_incidents'' 2 COSINE] \<and>
   map_option vectors_distance (sample_source ''sengol_incidents'') = Some DOT"
  by (simp add: run_defs sample_source_def sample_points_def scan_loop.simps)

end
